theory Spec2Isabelle
  imports Main "HOL-Library.Multiset"
begin

section \<open>The output tree\<close>

text \<open>
  The converter of \<^verbatim>\<open>pkg/schema/jsonschema.go\<close> builds a tree of
  \<^verbatim>\<open>yamlmeta.Map\<close>, \<^verbatim>\<open>yamlmeta.Array\<close> and plain Go values. A map is the
  ordered list of its items (order and duplicates matter, so it is an association list);
  \<open>VNil\<close> is Go's \<^verbatim>\<open>nil\<close>, the value of an unset default. Keys are dynamically typed in
  the source; every key the converter writes or compares is a string, so keys are strings
  here.
\<close>

datatype val =
    VNil
  | VStr string
  | VBool bool
  | VInt int
  | VArr "val list"
  | VMap "(string \<times> val) list"

type_synonym item = "string \<times> val"

datatype document = Document val

section \<open>The type model\<close>

text \<open>
  One constructor per Go type the switch of \<^verbatim>\<open>calculateProperties\<close> can meet.
  \<^verbatim>\<open>collectDocumentation\<close> and \<^verbatim>\<open>convertValidations\<close> are declared outside
  this file and are functions of the node alone, so a node carries the item lists they
  return for it: the first \<open>item list\<close> of \<open>MapType\<close>, \<open>ArrayType\<close>,
  \<open>ArrayItemType\<close>, \<open>ScalarType\<close>, \<open>NullType\<close> and \<open>AnyType\<close> is the node's
  documentation, the next one its validations; \<open>DocumentType\<close> and \<open>MapItemType\<close>
  carry validations only, the converter never asks for their documentation. The \<open>val\<close>
  of \<open>ArrayType\<close>, \<open>ScalarType\<close> and \<open>AnyType\<close> is \<^verbatim>\<open>GetDefaultValue()\<close>.
  The items of a \<open>MapType\<close> are \<^verbatim>\<open>[]*MapItemType\<close> in Go, hence a list of the
  three fields of a \<open>MapItemType\<close>. \<open>Other t\<close> is any other Go value, \<open>t\<close> being what
  \<^verbatim>\<open>%T\<close> prints for it. Nil pointers are not modelled.
\<close>

datatype 'k node =
    DocumentType "item list" "'k node"
  | MapType "item list" "item list" "(string \<times> item list \<times> 'k node) list"
  | MapItemType string "item list" "'k node"
  | ArrayType "item list" "item list" val "'k node"
  | ArrayItemType "item list" "item list" "'k node"
  | ScalarType "item list" "item list" val 'k
  | NullType "item list" "item list" "'k node"
  | AnyType "item list" "item list" val
  | Other string

text \<open>
  The two ways the converter panics: the \<^verbatim>\<open>default\<close> branch of the switch, with
  the type name it formats into its message, and the failed single-value type assertion
  of the array clause, a runtime error naming the dynamic type it found.
\<close>

datatype error = Unrecognized string | AssertionFailed string

fun typeName :: "'k node \<Rightarrow> string" where
  "typeName (DocumentType _ _) = ''*schema.DocumentType''"
| "typeName (MapType _ _ _) = ''*schema.MapType''"
| "typeName (MapItemType _ _ _) = ''*schema.MapItemType''"
| "typeName (ArrayType _ _ _ _) = ''*schema.ArrayType''"
| "typeName (ArrayItemType _ _ _) = ''*schema.ArrayItemType''"
| "typeName (ScalarType _ _ _ _) = ''*schema.ScalarType''"
| "typeName (NullType _ _ _) = ''*schema.NullType''"
| "typeName (AnyType _ _ _) = ''*schema.AnyType''"
| "typeName (Other t) = t"

section \<open>What the converter takes from outside this file\<close>

text \<open>
  \<open>sortKeys\<close> is \<^verbatim>\<open>sort.Sort(openAPIKeys(items))\<close>: Go's sorting routine, which is
  not stable, under a comparator declared elsewhere. \<open>openAPITypeFor\<close> is the table from
  scalar kinds to JSON type names and \<open>scalarString\<close> the \<^verbatim>\<open>String()\<close> method of a
  scalar type. They are parameters of the model; \<open>'k\<close> is the type of scalar kinds.
\<close>

record 'k ext =
  sortKeys :: "item list \<Rightarrow> item list"
  openAPITypeFor :: "'k \<Rightarrow> string"
  scalarString :: "'k \<Rightarrow> string"

text \<open>
  Modelled from the spec: the key constants \<^verbatim>\<open>typeProp\<close>,
  \<^verbatim>\<open>additionalPropsProp\<close>, \<^verbatim>\<open>propertiesProp\<close>, \<^verbatim>\<open>defaultProp\<close>,
  \<^verbatim>\<open>itemsProp\<close> and \<^verbatim>\<open>formatProp\<close> are declared outside this file; the
  specification names the keys they stand for.
\<close>

definition typeProp :: string where
  "typeProp = ''type''"

definition additionalPropsProp :: string where
  "additionalPropsProp = ''additionalProperties''"

definition propertiesProp :: string where
  "propertiesProp = ''properties''"

definition defaultProp :: string where
  "defaultProp = ''default''"

definition itemsProp :: string where
  "itemsProp = ''items''"

definition formatProp :: string where
  "formatProp = ''format''"

section \<open>calculateProperties\<close>

text \<open>
  The body of the loop of the \<^verbatim>\<open>NullType\<close> clause: an item whose key is the
  literal \<^verbatim>\<open>"type"\<close> is replaced by one holding the two-element array of its value
  and \<^verbatim>\<open>"null"\<close>, any other item is appended as it is.
\<close>

definition nullableItem :: "item \<Rightarrow> item" where
  "nullableItem it =
     (if fst it = ''type'' then (''type'', VArr [snd it, VStr ''null'']) else it)"

definition anyTypes :: val where
  "anyTypes = VArr [VStr ''null'', VStr ''string'', VStr ''number'',
                    VStr ''object'', VStr ''array'', VStr ''boolean'']"

text \<open>
  One clause per case of the switch, in the order of the source. A panic of a recursive
  call ends the caller, so an \<open>Inl\<close> is passed on. \<open>calculateFields\<close> is the loop of
  the \<^verbatim>\<open>MapType\<close> clause over the map's items; its result is stored under
  \<^verbatim>\<open>properties\<close> without being sorted.
\<close>

fun calculateProperties :: "'k ext \<Rightarrow> 'k node \<Rightarrow> error + item list"
and calculateFields :: "'k ext \<Rightarrow> (string \<times> item list \<times> 'k node) list \<Rightarrow> error + item list"
where
  "calculateProperties e (DocumentType vs t) =
     (case calculateProperties e t of
        Inl err \<Rightarrow> Inl err
      | Inr result \<Rightarrow> Inr (sortKeys e (result @ vs)))"
| "calculateProperties e (MapType d vs fs) =
     (case calculateFields e fs of
        Inl err \<Rightarrow> Inl err
      | Inr properties \<Rightarrow>
          Inr (sortKeys e (d @ vs @ [(typeProp, VStr ''object''),
                                     (additionalPropsProp, VBool False),
                                     (propertiesProp, VMap properties)])))"
| "calculateProperties e (MapItemType k vs t) =
     (case calculateProperties e t of
        Inl err \<Rightarrow> Inl err
      | Inr result \<Rightarrow> Inr (sortKeys e (result @ vs)))"
| "calculateProperties e (ArrayType d vs dv (ArrayItemType d' vs' t)) =
     (case calculateProperties e t of
        Inl err \<Rightarrow> Inl err
      | Inr properties \<Rightarrow>
          Inr (sortKeys e (d @ vs @ [(typeProp, VStr ''array''),
                                     (defaultProp, dv),
                                     (itemsProp, VMap properties)])))"
| "calculateProperties e (ArrayType d vs dv other) = Inl (AssertionFailed (typeName other))"
| "calculateProperties e (ScalarType d vs dv k) =
     Inr (sortKeys e (d @ vs @ [(defaultProp, dv), (typeProp, VStr (openAPITypeFor e k))]
            @ (if scalarString e k = ''float'' then [(formatProp, VStr ''float'')] else [])))"
| "calculateProperties e (NullType d vs t) =
     (case calculateProperties e t of
        Inl err \<Rightarrow> Inl err
      | Inr properties \<Rightarrow> Inr (sortKeys e (d @ vs @ map nullableItem properties)))"
| "calculateProperties e (AnyType d vs dv) =
     Inr (sortKeys e (d @ vs @ [(typeProp, anyTypes), (defaultProp, dv)]))"
| "calculateProperties e n = Inl (Unrecognized (typeName n))"
| "calculateFields e [] = Inr []"
| "calculateFields e ((k, vs, t) # fs) =
     (case calculateProperties e (MapItemType k vs t) of
        Inl err \<Rightarrow> Inl err
      | Inr m \<Rightarrow>
          (case calculateFields e fs of
             Inl err \<Rightarrow> Inl err
           | Inr properties \<Rightarrow> Inr ((k, VMap m) # properties)))"

section \<open>AsDocument\<close>

text \<open>
  \<^verbatim>\<open>j.docType\<close> is a \<^verbatim>\<open>*DocumentType\<close>; \<open>vs\<close> and \<open>t\<close> are its validations
  and its value type. The three fixed items are put in front of the items computed for it.
\<close>

definition envelope :: "item list" where
  "envelope =
     [(''$schema'', VStr ''https://json-schema.org/draft/2020-12/schema''),
      (''$id'', VStr ''https://example.biz/schema/ytt/data-values.json''),
      (''description'', VStr ''Schema for data values, generated by ytt'')]"

definition AsDocument :: "'k ext \<Rightarrow> item list \<Rightarrow> 'k node \<Rightarrow> error + document" where
  "AsDocument e vs t =
     (case calculateProperties e (DocumentType vs t) of
        Inl err \<Rightarrow> Inl err
      | Inr jsonSchemaProperties \<Rightarrow> Inr (Document (VMap (envelope @ jsonSchemaProperties))))"

section \<open>Notions the properties are stated with\<close>

text \<open>
  The keys of an object are sorted when their ranks do not decrease. What is known of
  \<^verbatim>\<open>sort.Sort\<close> under a comparator that compares ranks is that it returns a
  rearrangement of its input with sorted keys; items of equal rank may come out in any
  order.
\<close>

definition keysSorted :: "(string \<Rightarrow> int) \<Rightarrow> item list \<Rightarrow> bool" where
  "keysSorted rank m = sorted (map (rank \<circ> fst) m)"

definition sortContract :: "(string \<Rightarrow> int) \<Rightarrow> (item list \<Rightarrow> item list) \<Rightarrow> bool" where
  "sortContract rank srt = (\<forall>xs. mset (srt xs) = mset xs \<and> keysSorted rank (srt xs))"

text \<open>The variants that have a case in the switch.\<close>

fun recognized :: "'k node \<Rightarrow> bool" where
  "recognized (ArrayItemType _ _ _) = False"
| "recognized (Other _) = False"
| "recognized _ = True"

fun isArrayItem :: "'k node \<Rightarrow> bool" where
  "isArrayItem (ArrayItemType _ _ _) = True"
| "isArrayItem _ = False"

text \<open>
  The nodes \<open>calculateProperties\<close> is called on while it converts a node whose
  conversion does not abort: the node itself, then the nodes of the recursive calls. The
  array clause goes past the \<open>ArrayItemType\<close> to the type inside.
\<close>

fun visited :: "'k node \<Rightarrow> 'k node list"
and visitedFields :: "(string \<times> item list \<times> 'k node) list \<Rightarrow> 'k node list"
where
  "visited (DocumentType vs t) = DocumentType vs t # visited t"
| "visited (MapType d vs fs) = MapType d vs fs # visitedFields fs"
| "visited (MapItemType k vs t) = MapItemType k vs t # visited t"
| "visited (ArrayType d vs dv (ArrayItemType d' vs' t)) =
     ArrayType d vs dv (ArrayItemType d' vs' t) # visited t"
| "visited (NullType d vs t) = NullType d vs t # visited t"
| "visited n = [n]"
| "visitedFields [] = []"
| "visitedFields ((k, vs, t) # fs) = visited (MapItemType k vs t) @ visitedFields fs"

text \<open>Every array of the tree wraps an \<open>ArrayItemType\<close>.\<close>

fun arraysWrapItems :: "'k node \<Rightarrow> bool"
and fieldsWrapItems :: "(string \<times> item list \<times> 'k node) list \<Rightarrow> bool"
where
  "arraysWrapItems (DocumentType vs t) = arraysWrapItems t"
| "arraysWrapItems (MapType d vs fs) = fieldsWrapItems fs"
| "arraysWrapItems (MapItemType k vs t) = arraysWrapItems t"
| "arraysWrapItems (ArrayType d vs dv c) = (isArrayItem c \<and> arraysWrapItems c)"
| "arraysWrapItems (ArrayItemType d vs t) = arraysWrapItems t"
| "arraysWrapItems (NullType d vs t) = arraysWrapItems t"
| "arraysWrapItems _ = True"
| "fieldsWrapItems [] = True"
| "fieldsWrapItems ((k, vs, t) # fs) = (arraysWrapItems t \<and> fieldsWrapItems fs)"

section \<open>An instance of the parameters\<close>

text \<open>
  Modelled from the spec: the scalar kinds, the table from kinds to JSON type names, the
  \<^verbatim>\<open>String()\<close> method and the ranking of the keys are declared outside this file.
  The specification lists string, integer, float and boolean kinds and leaves the ranking
  open. The instance below is used to run the converter on concrete trees: it ranks the
  six structural keys in a fixed order and every other key 0 (what a Go map lookup gives
  for an absent key), and sorts by insertion, which is how \<^verbatim>\<open>sort.Sort\<close> treats
  short slices.
\<close>

datatype scalarKind = StringKind | IntKind | FloatKind | BoolKind

fun sampleTypeFor :: "scalarKind \<Rightarrow> string" where
  "sampleTypeFor StringKind = ''string''"
| "sampleTypeFor IntKind = ''integer''"
| "sampleTypeFor FloatKind = ''number''"
| "sampleTypeFor BoolKind = ''boolean''"

fun sampleString :: "scalarKind \<Rightarrow> string" where
  "sampleString StringKind = ''string''"
| "sampleString IntKind = ''integer''"
| "sampleString FloatKind = ''float''"
| "sampleString BoolKind = ''boolean''"

definition sampleOrder :: "string \<Rightarrow> int" where
  "sampleOrder k =
     (if k = ''type'' then 1
      else if k = ''additionalProperties'' then 2
      else if k = ''format'' then 3
      else if k = ''items'' then 4
      else if k = ''properties'' then 5
      else if k = ''default'' then 6
      else 0)"

definition sampleExt :: "scalarKind ext" where
  "sampleExt = \<lparr> sortKeys = sort_key (sampleOrder \<circ> fst),
                 openAPITypeFor = sampleTypeFor,
                 scalarString = sampleString \<rparr>"

section \<open>Facts about sorting and about single clauses\<close>

lemmas keyDefs = typeProp_def additionalPropsProp_def propertiesProp_def defaultProp_def
  itemsProp_def formatProp_def

lemmas sampleDefs = sampleExt_def sampleOrder_def nullableItem_def anyTypes_def

lemma contract_mset: "sortContract rank srt \<Longrightarrow> mset (srt xs) = mset xs"
  by (simp add: sortContract_def)

lemma contract_set: "sortContract rank srt \<Longrightarrow> set (srt xs) = set xs"
  using contract_mset [of rank srt xs] by (metis set_mset_mset)

lemma contract_sorted: "sortContract rank srt \<Longrightarrow> keysSorted rank (srt xs)"
  by (simp add: sortContract_def)

lemma sample_contract: "sortContract sampleOrder (sortKeys sampleExt)"
  by (simp add: sortContract_def keysSorted_def sampleExt_def)

lemma nullableItem_key: "fst (nullableItem it) = fst it"
  by (simp add: nullableItem_def)

lemma nullableItem_eq:
  "nullableItem =
     (\<lambda>(k, v). if k = ''type'' then (''type'', VArr [v, VStr ''null'']) else (k, v))"
  by (auto simp: nullableItem_def fun_eq_iff)

lemma result_sorted:
  assumes "sortContract rank (sortKeys e)"
    and "calculateProperties e n = Inr m"
  shows "keysSorted rank m"
  using assms(2) contract_sorted [OF assms(1)]
  by (cases "(e, n)" rule: calculateProperties.cases) (auto split: sum.splits)

lemma unrecognized_aborts:
  "\<not> recognized n \<Longrightarrow> calculateProperties e n = Inl (Unrecognized (typeName n))"
  by (cases n) simp_all

lemma assertion_fails:
  "\<not> isArrayItem c \<Longrightarrow>
     calculateProperties e (ArrayType d vs dv c) = Inl (AssertionFailed (typeName c))"
  by (cases c) simp_all

section \<open>Facts about the loop over the fields of a map\<close>

lemma fields_keys: "calculateFields e fs = Inr ps \<Longrightarrow> map fst ps = map fst fs"
proof (induction fs arbitrary: ps)
  case Nil
  then show ?case by simp
next
  case (Cons f fs)
  then show ?case by (cases f) (auto split: sum.splits)
qed

lemma fields_total:
  "list_all (\<lambda>(k, fvs, t). \<exists>mt. calculateProperties e t = Inr mt) fs \<Longrightarrow>
     \<exists>ps. calculateFields e fs = Inr ps"
proof (induction fs)
  case Nil
  then show ?case by simp
next
  case (Cons f fs)
  then show ?case by (cases f) auto
qed

lemma fields_result:
  "calculateFields e fs = Inr ps \<Longrightarrow>
     list_all2 (\<lambda>(k, fvs, t) (k', x). k' = k \<and>
        (\<exists>mt. calculateProperties e t = Inr mt
           \<and> calculateProperties e (MapItemType k fvs t) = Inr (sortKeys e (mt @ fvs))
           \<and> x = VMap (sortKeys e (mt @ fvs)))) fs ps"
proof (induction fs arbitrary: ps)
  case Nil
  then show ?case by simp
next
  case (Cons f fs)
  obtain k fvs t where f: "f = (k, fvs, t)" by (cases f)
  from Cons.prems f obtain mt ps' where
    mt: "calculateProperties e t = Inr mt" and
    ps': "calculateFields e fs = Inr ps'" and
    ps: "ps = (k, VMap (sortKeys e (mt @ fvs))) # ps'"
    by (auto split: sum.splits)
  from Cons.IH [OF ps'] mt show ?case
    by (simp add: f ps)
qed

lemma map_result:
  assumes "sortContract rank (sortKeys e)"
    and "calculateProperties e (MapType d vs fs) = Inr m"
  shows "\<exists>ps. calculateFields e fs = Inr ps
           \<and> set m = set d \<union> set vs \<union> {(''type'', VStr ''object''),
                 (''additionalProperties'', VBool False), (''properties'', VMap ps)}"
proof -
  from assms(2) obtain ps where
    ps: "calculateFields e fs = Inr ps" and
    m: "m = sortKeys e (d @ vs @ [(typeProp, VStr ''object''),
                                   (additionalPropsProp, VBool False),
                                   (propertiesProp, VMap ps)])"
    by (auto split: sum.splits)
  have "set m = set d \<union> set vs \<union> {(''type'', VStr ''object''),
           (''additionalProperties'', VBool False), (''properties'', VMap ps)}"
    unfolding m contract_set [OF assms(1)] by (auto simp: keyDefs)
  with ps show ?thesis by blast
qed

text \<open>
  Whatever the ranking and the sorting routine: a map whose first field has a name that
  ranks above the name of its second field stores them under \<open>properties\<close> in that
  order.
\<close>

lemma properties_keep_declaration_order:
  assumes "sortContract rank (sortKeys e)"
    and "rank b < rank a"
  shows "\<exists>m ps. calculateProperties e
             (MapType [] [] [(a, [], AnyType [] [] VNil), (b, [], AnyType [] [] VNil)]) = Inr m
           \<and> (''properties'', VMap ps) \<in> set m
           \<and> map fst ps = [a, b]
           \<and> \<not> keysSorted rank ps"
proof -
  obtain ps where ps: "calculateFields e [(a, [], AnyType [] [] VNil), (b, [], AnyType [] [] VNil)] = Inr ps"
    by simp
  then obtain m where m: "calculateProperties e (MapType [] [] [(a, [], AnyType [] [] VNil), (b, [], AnyType [] [] VNil)]) = Inr m"
    by simp
  from map_result [OF assms(1) m] ps have in_m: "(''properties'', VMap ps) \<in> set m"
    by simp
  from fields_keys [OF ps] have keys: "map fst ps = [a, b]"
    by simp
  then have "map (rank \<circ> fst) ps = [rank a, rank b]"
    by (metis (no_types, lifting) list.simps(8,9) map_map)
  with assms(2) have ns: "\<not> keysSorted rank ps"
    by (simp add: keysSorted_def)
  show ?thesis
    apply (rule exI [of _ m])
    apply (rule exI [of _ ps])
    using m in_m keys ns apply simp
    done
qed

section \<open>Facts about the whole recursion\<close>

lemma visited_convert:
  "(\<exists>m. calculateProperties e n = Inr m) \<Longrightarrow>
     \<forall>c \<in> set (visited n). \<exists>mc. calculateProperties e c = Inr mc"
  "(\<exists>ps. calculateFields e fs = Inr ps) \<Longrightarrow>
     \<forall>c \<in> set (visitedFields fs). \<exists>mc. calculateProperties e c = Inr mc"
  by (induction e n and e fs rule: calculateProperties_calculateFields.induct)
     (auto split: sum.splits)

lemma unrecognized_origin:
  "calculateProperties e n = Inl (Unrecognized s) \<Longrightarrow>
     \<exists>c \<in> set (visited n). \<not> recognized c \<and> s = typeName c"
  "calculateFields e fs = Inl (Unrecognized s) \<Longrightarrow>
     \<exists>c \<in> set (visitedFields fs). \<not> recognized c \<and> s = typeName c"
  by (induction e n and e fs rule: calculateProperties_calculateFields.induct)
     (auto split: sum.splits)

lemma no_assertion_failure:
  "arraysWrapItems n \<Longrightarrow> calculateProperties e n \<noteq> Inl (AssertionFailed s)"
  "fieldsWrapItems fs \<Longrightarrow> calculateFields e fs \<noteq> Inl (AssertionFailed s)"
  by (induction e n and e fs rule: calculateProperties_calculateFields.induct)
     (auto split: sum.splits)

lemma converts_total:
  "(\<forall>c \<in> set (visited n). recognized c) \<Longrightarrow> arraysWrapItems n \<Longrightarrow>
     \<exists>m. calculateProperties e n = Inr m"
  "(\<forall>c \<in> set (visitedFields fs). recognized c) \<Longrightarrow> fieldsWrapItems fs \<Longrightarrow>
     \<exists>m. calculateFields e fs = Inr m"
  by (induction e n and e fs rule: calculateProperties_calculateFields.induct)
     (auto split: sum.splits)

section \<open>Conversions of concrete trees\<close>

lemma sample_integer:
  "calculateProperties sampleExt (ScalarType [] [] (VInt 0) IntKind) =
     Inr [(''type'', VStr ''integer''), (''default'', VInt 0)]"
  by (simp add: sampleDefs keyDefs)

lemma sample_string:
  "calculateProperties sampleExt (ScalarType [] [] (VStr '''') StringKind) =
     Inr [(''type'', VStr ''string''), (''default'', VStr '''')]"
  by (simp add: sampleDefs keyDefs)

lemma sample_map:
  "calculateProperties sampleExt
     (MapType [] [] [(''name'', [], ScalarType [] [] (VStr '''') StringKind)]) =
     Inr [(''type'', VStr ''object''), (''additionalProperties'', VBool False),
          (''properties'',
             VMap [(''name'', VMap [(''type'', VStr ''string''), (''default'', VStr '''')])])]"
  by (simp add: sampleDefs keyDefs)

lemma sample_document:
  "calculateProperties sampleExt
     (DocumentType [] (MapType [] [] [(''name'', [], ScalarType [] [] (VStr '''') StringKind)])) =
     Inr [(''type'', VStr ''object''), (''additionalProperties'', VBool False),
          (''properties'',
             VMap [(''name'', VMap [(''type'', VStr ''string''), (''default'', VStr '''')])])]"
  by (simp add: sampleDefs keyDefs)

section \<open>The Null clause\<close>

text \<open>
  Claim C1, as stated, fails: the \<open>NullType\<close> clause first appends the node's own
  documentation and validation items, so keys that the wrapped type's object does not
  have can appear. Here a nullable integer with a description: the wrapped scalar
  converts to \<open>type\<close> and \<open>default\<close>, the nullable node to \<open>description\<close>,
  \<open>type\<close> and \<open>default\<close>.
\<close>

theorem null_own_entries_counterexample:
  "calculateProperties sampleExt (ScalarType [] [] (VInt 0) IntKind) =
     Inr [(''type'', VStr ''integer''), (''default'', VInt 0)]
   \<and> calculateProperties sampleExt
       (NullType [(''description'', VStr ''port'')] [] (ScalarType [] [] (VInt 0) IntKind)) =
     Inr [(''description'', VStr ''port''),
          (''type'', VArr [VStr ''integer'', VStr ''null'']),
          (''default'', VInt 0)]"
  by (simp add: sampleDefs keyDefs)

text \<open>
  Claim C1, amended. When the wrapped type converts to the object \<open>m\<close>, the nullable
  node converts to an object that holds exactly the node's own documentation items, its
  own validation items, and the items of \<open>m\<close> where every item with key \<open>type\<close> and
  value \<open>v\<close>, scalar or not, has become \<open>type\<close> with the two-element array of \<open>v\<close>
  and \<open>null\<close>, every other item being carried unchanged; and its keys are sorted.
\<close>

theorem null_rewrites_type:
  assumes "sortContract rank (sortKeys e)"
    and "calculateProperties e t = Inr m"
  shows "\<exists>r. calculateProperties e (NullType d vs t) = Inr r
           \<and> mset r = mset d + mset vs
                + image_mset (\<lambda>(k, v). if k = ''type'' then (''type'', VArr [v, VStr ''null''])
                                        else (k, v)) (mset m)
           \<and> keysSorted rank r"
  using assms(2) contract_mset [OF assms(1)] contract_sorted [OF assms(1)]
  by (simp add: nullableItem_eq)

theorem null_rewrites_type_witness:
  "sortContract sampleOrder (sortKeys sampleExt)
   \<and> calculateProperties sampleExt (ScalarType [] [] (VInt 0) IntKind) =
       Inr [(''type'', VStr ''integer''), (''default'', VInt 0)]
   \<and> (\<exists>r. calculateProperties sampleExt (NullType [] [] (ScalarType [] [] (VInt 0) IntKind)) = Inr r
           \<and> mset r = mset [] + mset []
                + image_mset (\<lambda>(k, v). if k = ''type'' then (''type'', VArr [v, VStr ''null''])
                                        else (k, v))
                    (mset [(''type'', VStr ''integer''), (''default'', VInt 0)])
           \<and> keysSorted sampleOrder r)"
  using null_rewrites_type [OF sample_contract sample_integer, of "[]" "[]"]
    sample_contract sample_integer
  by blast

section \<open>Sorted keys\<close>

text \<open>
  Claim C2, as stated, fails for the object stored under \<open>properties\<close>: the loop of
  the \<open>MapType\<close> clause collects the fields in declaration order and the clause stores
  them without sorting. A map with the fields \<open>type\<close> and \<open>name\<close>, in this order,
  under a ranking that puts \<open>type\<close> after \<open>name\<close>:
\<close>

theorem properties_not_sorted_counterexample:
  "calculateProperties sampleExt
     (MapType [] [] [(''type'', [], ScalarType [] [] (VStr '''') StringKind),
                     (''name'', [], ScalarType [] [] (VStr '''') StringKind)]) =
     Inr [(''type'', VStr ''object''), (''additionalProperties'', VBool False),
          (''properties'',
             VMap [(''type'', VMap [(''type'', VStr ''string''), (''default'', VStr '''')]),
                   (''name'', VMap [(''type'', VStr ''string''), (''default'', VStr '''')])])]
   \<and> \<not> keysSorted sampleOrder
         [(''type'', VMap [(''type'', VStr ''string''), (''default'', VStr '''')]),
          (''name'', VMap [(''type'', VStr ''string''), (''default'', VStr '''')])]"
  by (simp add: sampleDefs keyDefs keysSorted_def)

text \<open>
  Claim C2, amended. When a node converts, every node the conversion visits (the node
  itself, each field of a map, the type inside an array's item, the type a document, a
  map item or a nullable node wraps, and so on downwards) converts to an object whose
  keys are sorted; and the object a map stores under \<open>properties\<close> has the fields'
  names as its keys, in declaration order.
\<close>

theorem converted_objects_sorted:
  assumes "sortContract rank (sortKeys e)"
    and "calculateProperties e n = Inr m"
  shows "(\<forall>c \<in> set (visited n). \<exists>mc. calculateProperties e c = Inr mc \<and> keysSorted rank mc)
       \<and> (\<forall>d vs fs. MapType d vs fs \<in> set (visited n) \<longrightarrow>
            (\<exists>mc ps. calculateProperties e (MapType d vs fs) = Inr mc
               \<and> (''properties'', VMap ps) \<in> set mc \<and> map fst ps = map fst fs))"
proof -
  have conv: "\<forall>c \<in> set (visited n). \<exists>mc. calculateProperties e c = Inr mc"
    using visited_convert(1) [of e n] assms(2) by blast
  have 1: "\<forall>c \<in> set (visited n). \<exists>mc. calculateProperties e c = Inr mc \<and> keysSorted rank mc"
    using conv result_sorted [OF assms(1)] by blast
  have 2: "\<forall>d vs fs. MapType d vs fs \<in> set (visited n) \<longrightarrow>
            (\<exists>mc ps. calculateProperties e (MapType d vs fs) = Inr mc
               \<and> (''properties'', VMap ps) \<in> set mc \<and> map fst ps = map fst fs)"
  proof (intro allI impI)
    fix d vs fs
    assume "MapType d vs fs \<in> set (visited n)"
    with conv obtain mc where mc: "calculateProperties e (MapType d vs fs) = Inr mc"
      by blast
    from map_result [OF assms(1) mc] obtain ps where
      "calculateFields e fs = Inr ps" and "(''properties'', VMap ps) \<in> set mc"
      by auto
    with mc fields_keys [of e fs ps]
    show "\<exists>mc ps. calculateProperties e (MapType d vs fs) = Inr mc
            \<and> (''properties'', VMap ps) \<in> set mc \<and> map fst ps = map fst fs"
      by blast
  qed
  from 1 2 show ?thesis by (rule conjI)
qed

theorem converted_objects_sorted_witness:
  "sortContract sampleOrder (sortKeys sampleExt)
   \<and> calculateProperties sampleExt
       (DocumentType [] (MapType [] [] [(''name'', [], ScalarType [] [] (VStr '''') StringKind)])) =
       Inr [(''type'', VStr ''object''), (''additionalProperties'', VBool False),
            (''properties'',
               VMap [(''name'', VMap [(''type'', VStr ''string''), (''default'', VStr '''')])])]
   \<and> (\<exists>mc. calculateProperties sampleExt (ScalarType [] [] (VStr '''') StringKind) = Inr mc
          \<and> keysSorted sampleOrder mc)
   \<and> (\<exists>mc ps. calculateProperties sampleExt
          (MapType [] [] [(''name'', [], ScalarType [] [] (VStr '''') StringKind)]) = Inr mc
          \<and> (''properties'', VMap ps) \<in> set mc
          \<and> map fst ps = map fst [(''name'', [] :: item list, ScalarType [] [] (VStr '''') StringKind)])"
proof -
  let ?s = "ScalarType ([] :: item list) ([] :: item list) (VStr '''') StringKind"
  let ?fs = "[(''name'', [] :: item list, ?s)]"
  let ?n = "DocumentType ([] :: item list) (MapType ([] :: item list) ([] :: item list) ?fs)"
  have s: "?s \<in> set (visited ?n)" by simp
  have mp: "MapType ([] :: item list) ([] :: item list) ?fs \<in> set (visited ?n)" by simp
  note t = converted_objects_sorted [OF sample_contract sample_document]
  have a: "\<exists>mc. calculateProperties sampleExt ?s = Inr mc \<and> keysSorted sampleOrder mc"
    by (rule conjunct1 [OF t, rule_format, OF s])
  have b: "\<exists>mc ps. calculateProperties sampleExt (MapType [] [] ?fs) = Inr mc
          \<and> (''properties'', VMap ps) \<in> set mc \<and> map fst ps = map fst ?fs"
    by (rule conjunct2 [OF t, rule_format, OF mp])
  show ?thesis by (intro conjI sample_contract sample_document a b)
qed

section \<open>Absent documentation, validations and defaults\<close>

text \<open>
  Claim C3, as stated, fails for the default value: the \<open>ArrayType\<close>, \<open>ScalarType\<close>
  and \<open>AnyType\<close> clauses append \<open>default\<close> unconditionally. A node of any type with
  no documentation, no validations and an unset default converts to an object with the
  key \<open>default\<close>, holding nil.
\<close>

theorem unset_default_counterexample:
  "calculateProperties sampleExt (AnyType [] [] VNil) =
     Inr [(''type'', VArr [VStr ''null'', VStr ''string'', VStr ''number'',
                         VStr ''object'', VStr ''array'', VStr ''boolean'']),
          (''default'', VNil)]"
  by (simp add: sampleDefs keyDefs)

text \<open>
  Claim C3, amended. The keys of a converted object are exactly the keys of the node's
  documentation items, the keys of its validation items and the keys its clause always
  writes (for a wrapper, the keys of the wrapped object): a node without documentation
  or validations gets no key for them, and the conversion does not fail for their
  absence. The array, scalar and any clauses always write \<open>default\<close> with the node's
  default value, whatever it is, nil included.
\<close>

theorem absent_entries_omitted:
  assumes "sortContract rank (sortKeys e)"
  shows "(\<exists>m. calculateProperties e (ScalarType d vs dv k) = Inr m
            \<and> fst ` set m = fst ` set d \<union> fst ` set vs
                 \<union> (if scalarString e k = ''float'' then {''default'', ''type'', ''format''}
                     else {''default'', ''type''})
            \<and> (''default'', dv) \<in> set m)
       \<and> (\<exists>m. calculateProperties e (AnyType d vs dv) = Inr m
            \<and> fst ` set m = fst ` set d \<union> fst ` set vs \<union> {''type'', ''default''}
            \<and> (''default'', dv) \<in> set m)
       \<and> (calculateProperties e t = Inr mt \<longrightarrow>
            (\<exists>m. calculateProperties e (ArrayType d vs dv (ArrayItemType d' vs' t)) = Inr m
               \<and> fst ` set m = fst ` set d \<union> fst ` set vs \<union> {''type'', ''default'', ''items''}
               \<and> (''default'', dv) \<in> set m))
       \<and> (calculateFields e fs = Inr ps \<longrightarrow>
            (\<exists>m. calculateProperties e (MapType d vs fs) = Inr m
               \<and> fst ` set m = fst ` set d \<union> fst ` set vs
                    \<union> {''type'', ''additionalProperties'', ''properties''}))
       \<and> (calculateProperties e t = Inr mt \<longrightarrow>
            (\<exists>m. calculateProperties e (NullType d vs t) = Inr m
               \<and> fst ` set m = fst ` set d \<union> fst ` set vs \<union> fst ` set mt))
       \<and> (calculateProperties e t = Inr mt \<longrightarrow>
            (\<exists>m. calculateProperties e (MapItemType key vs t) = Inr m
               \<and> fst ` set m = fst ` set mt \<union> fst ` set vs))
       \<and> (calculateProperties e t = Inr mt \<longrightarrow>
            (\<exists>m. calculateProperties e (DocumentType vs t) = Inr m
               \<and> fst ` set m = fst ` set mt \<union> fst ` set vs))"
proof -
  note cs = contract_set [OF assms]
  have 1: "\<exists>m. calculateProperties e (ScalarType d vs dv k) = Inr m
            \<and> fst ` set m = fst ` set d \<union> fst ` set vs
                 \<union> (if scalarString e k = ''float'' then {''default'', ''type'', ''format''}
                     else {''default'', ''type''})
            \<and> (''default'', dv) \<in> set m"
    by (auto simp: cs keyDefs image_Un)
  have 2: "\<exists>m. calculateProperties e (AnyType d vs dv) = Inr m
            \<and> fst ` set m = fst ` set d \<union> fst ` set vs \<union> {''type'', ''default''}
            \<and> (''default'', dv) \<in> set m"
    by (auto simp: cs keyDefs image_Un)
  have 3: "calculateProperties e t = Inr mt \<longrightarrow>
            (\<exists>m. calculateProperties e (ArrayType d vs dv (ArrayItemType d' vs' t)) = Inr m
               \<and> fst ` set m = fst ` set d \<union> fst ` set vs \<union> {''type'', ''default'', ''items''}
               \<and> (''default'', dv) \<in> set m)"
    by (auto simp: cs keyDefs image_Un)
  have 4: "calculateFields e fs = Inr ps \<longrightarrow>
            (\<exists>m. calculateProperties e (MapType d vs fs) = Inr m
               \<and> fst ` set m = fst ` set d \<union> fst ` set vs
                    \<union> {''type'', ''additionalProperties'', ''properties''})"
    by (auto simp: cs keyDefs image_Un)
  have 5: "calculateProperties e t = Inr mt \<longrightarrow>
            (\<exists>m. calculateProperties e (NullType d vs t) = Inr m
               \<and> fst ` set m = fst ` set d \<union> fst ` set vs \<union> fst ` set mt)"
    by (auto simp: cs image_Un image_image nullableItem_key)
  have 6: "calculateProperties e t = Inr mt \<longrightarrow>
            (\<exists>m. calculateProperties e (MapItemType key vs t) = Inr m
               \<and> fst ` set m = fst ` set mt \<union> fst ` set vs)"
    by (auto simp: cs image_Un)
  have 7: "calculateProperties e t = Inr mt \<longrightarrow>
            (\<exists>m. calculateProperties e (DocumentType vs t) = Inr m
               \<and> fst ` set m = fst ` set mt \<union> fst ` set vs)"
    by (auto simp: cs image_Un)
  from 1 2 3 4 5 6 7 show ?thesis by (intro conjI)
qed

theorem absent_entries_omitted_witness:
  "sortContract sampleOrder (sortKeys sampleExt)
   \<and> calculateProperties sampleExt (ScalarType [] [] (VInt 0) IntKind) =
       Inr [(''type'', VStr ''integer''), (''default'', VInt 0)]
   \<and> calculateFields sampleExt [] = Inr []
   \<and> (\<exists>m. calculateProperties sampleExt (ScalarType [] [] VNil IntKind) = Inr m
          \<and> fst ` set m = {''default'', ''type''}
          \<and> (''default'', VNil) \<in> set m)
   \<and> (\<exists>m. calculateProperties sampleExt (AnyType [] [] VNil) = Inr m
          \<and> fst ` set m = {''type'', ''default''}
          \<and> (''default'', VNil) \<in> set m)
   \<and> (\<exists>m. calculateProperties sampleExt
          (ArrayType [] [] VNil (ArrayItemType [] [] (ScalarType [] [] (VInt 0) IntKind))) = Inr m
          \<and> fst ` set m = {''type'', ''default'', ''items''}
          \<and> (''default'', VNil) \<in> set m)
   \<and> (\<exists>m. calculateProperties sampleExt (MapType [] [] []) = Inr m
          \<and> fst ` set m = {''type'', ''additionalProperties'', ''properties''})
   \<and> (\<exists>m. calculateProperties sampleExt
          (NullType [] [] (ScalarType [] [] (VInt 0) IntKind)) = Inr m
          \<and> fst ` set m = {''type'', ''default''})
   \<and> (\<exists>m. calculateProperties sampleExt
          (MapItemType ''port'' [] (ScalarType [] [] (VInt 0) IntKind)) = Inr m
          \<and> fst ` set m = {''type'', ''default''})
   \<and> (\<exists>m. calculateProperties sampleExt
          (DocumentType [] (ScalarType [] [] (VInt 0) IntKind)) = Inr m
          \<and> fst ` set m = {''type'', ''default''})"
proof -
  have fs: "calculateFields sampleExt [] = Inr []" by simp
  note t = absent_entries_omitted [OF sample_contract,
      where d = "[]" and vs = "[]" and dv = VNil and k = IntKind
        and t = "ScalarType [] [] (VInt 0) IntKind"
        and mt = "[(''type'', VStr ''integer''), (''default'', VInt 0)]"
        and d' = "[]" and vs' = "[]" and fs = "[]" and ps = "[]" and key = "''port''"]
  from t sample_integer fs sample_contract show ?thesis
    by (simp add: sampleExt_def)
qed

section \<open>The Map clause\<close>

text \<open>
  Claim C4. A map with the fields \<open>(k1, T1), ..., (kn, Tn)\<close>, each of whose field
  types converts, converts to an object that holds \<open>type\<close> = \<open>object\<close>,
  \<open>additionalProperties\<close> = \<open>false\<close>, and \<open>properties\<close> with an object whose
  keys are \<open>k1, ..., kn\<close> in declaration order, the value of each being the conversion
  of that field: the object of the field's type with the field's own validation items
  appended, sorted.
\<close>

theorem map_properties:
  assumes "sortContract rank (sortKeys e)"
    and "list_all (\<lambda>(k, fvs, t). \<exists>mt. calculateProperties e t = Inr mt) fs"
  shows "\<exists>m ps. calculateProperties e (MapType d vs fs) = Inr m
           \<and> (''type'', VStr ''object'') \<in> set m
           \<and> (''additionalProperties'', VBool False) \<in> set m
           \<and> (''properties'', VMap ps) \<in> set m
           \<and> map fst ps = map fst fs
           \<and> list_all2 (\<lambda>(k, fvs, t) (k', x). k' = k \<and>
                (\<exists>mt. calculateProperties e t = Inr mt
                   \<and> calculateProperties e (MapItemType k fvs t) = Inr (sortKeys e (mt @ fvs))
                   \<and> x = VMap (sortKeys e (mt @ fvs)))) fs ps"
proof -
  from fields_total [OF assms(2)] obtain ps where ps: "calculateFields e fs = Inr ps"
    by blast
  then obtain m where m: "calculateProperties e (MapType d vs fs) = Inr m"
    by simp
  from map_result [OF assms(1) m] ps have
    "set m = set d \<union> set vs \<union> {(''type'', VStr ''object''),
           (''additionalProperties'', VBool False), (''properties'', VMap ps)}"
    by simp
  with m fields_keys [OF ps] fields_result [OF ps] show ?thesis by blast
qed

theorem map_properties_witness:
  "sortContract sampleOrder (sortKeys sampleExt)
   \<and> list_all (\<lambda>(k, fvs, t). \<exists>mt. calculateProperties sampleExt t = Inr mt)
        [(''name'', [] :: item list, ScalarType [] [] (VStr '''') StringKind)]
   \<and> (\<exists>m ps. calculateProperties sampleExt
          (MapType [] [] [(''name'', [], ScalarType [] [] (VStr '''') StringKind)]) = Inr m
        \<and> (''type'', VStr ''object'') \<in> set m
        \<and> (''additionalProperties'', VBool False) \<in> set m
        \<and> (''properties'', VMap ps) \<in> set m
        \<and> map fst ps = map fst [(''name'', [] :: item list, ScalarType [] [] (VStr '''') StringKind)]
        \<and> list_all2 (\<lambda>(k, fvs, t) (k', x). k' = k \<and>
             (\<exists>mt. calculateProperties sampleExt t = Inr mt
                \<and> calculateProperties sampleExt (MapItemType k fvs t) =
                    Inr (sortKeys sampleExt (mt @ fvs))
                \<and> x = VMap (sortKeys sampleExt (mt @ fvs))))
             [(''name'', [], ScalarType [] [] (VStr '''') StringKind)] ps)"
proof -
  have h: "list_all (\<lambda>(k, fvs, t). \<exists>mt. calculateProperties sampleExt t = Inr mt)
        [(''name'', [] :: item list, ScalarType [] [] (VStr '''') StringKind)]"
    by (simp add: sample_string)
  show ?thesis
    by (intro conjI sample_contract h map_properties [OF sample_contract h, of "[]" "[]"])
qed

section \<open>The Scalar clause\<close>

text \<open>
  Claim C5. For every scalar kind and default value, the scalar converts to an object
  that holds \<open>type\<close> with the JSON type name of the kind and \<open>default\<close> with the
  default value; it holds \<open>format\<close> = \<open>float\<close> exactly when the kind is the one
  whose name is \<open>float\<close>. The documentation and validation items come from outside and
  are taken not to hold \<open>format\<close> = \<open>float\<close> themselves.
\<close>

theorem scalar_properties:
  assumes "sortContract rank (sortKeys e)"
    and "(''format'', VStr ''float'') \<notin> set d \<union> set vs"
  shows "\<exists>m. calculateProperties e (ScalarType d vs dv k) = Inr m
           \<and> (''type'', VStr (openAPITypeFor e k)) \<in> set m
           \<and> (''default'', dv) \<in> set m
           \<and> ((''format'', VStr ''float'') \<in> set m \<longleftrightarrow> scalarString e k = ''float'')"
  using assms(2) contract_set [OF assms(1)]
  by (simp add: keyDefs)

theorem scalar_properties_witness:
  "sortContract sampleOrder (sortKeys sampleExt)
   \<and> (''format'', VStr ''float'') \<notin> set [(''title'', VStr ''ratio'')] \<union> set []
   \<and> (\<exists>m. calculateProperties sampleExt
            (ScalarType [(''title'', VStr ''ratio'')] [] (VInt 1) FloatKind) = Inr m
         \<and> (''type'', VStr (openAPITypeFor sampleExt FloatKind)) \<in> set m
         \<and> (''default'', VInt 1) \<in> set m
         \<and> ((''format'', VStr ''float'') \<in> set m \<longleftrightarrow> scalarString sampleExt FloatKind = ''float''))"
proof -
  have h: "(''format'', VStr ''float'') \<notin> set [(''title'', VStr ''ratio'')] \<union> set []"
    by simp
  show ?thesis
    by (intro conjI sample_contract h
          scalar_properties [OF sample_contract h, of "VInt 1" FloatKind])
qed

section \<open>The Any clause\<close>

text \<open>
  Claim C6. For every \<open>AnyType\<close> node, whatever its documentation, validations and
  default value, the conversion returns an object that holds the item \<open>type\<close> whose
  value is the array of \<open>null\<close>, \<open>string\<close>, \<open>number\<close>, \<open>object\<close>, \<open>array\<close>,
  \<open>boolean\<close>, in this order.
\<close>

theorem any_type_sequence:
  assumes "sortContract rank (sortKeys e)"
  shows "\<exists>m. calculateProperties e (AnyType d vs dv) = Inr m
           \<and> (''type'', VArr [VStr ''null'', VStr ''string'', VStr ''number'',
                             VStr ''object'', VStr ''array'', VStr ''boolean'']) \<in> set m"
  using contract_set [OF assms] by (simp add: typeProp_def anyTypes_def)

theorem any_type_sequence_witness:
  "sortContract sampleOrder (sortKeys sampleExt)
   \<and> (\<exists>m. calculateProperties sampleExt (AnyType [(''title'', VStr ''t'')] [] VNil) = Inr m
           \<and> (''type'', VArr [VStr ''null'', VStr ''string'', VStr ''number'',
                             VStr ''object'', VStr ''array'', VStr ''boolean'']) \<in> set m)"
  by (intro conjI sample_contract
        any_type_sequence [OF sample_contract, of "[(''title'', VStr ''t'')]" "[]" VNil])

section \<open>The document\<close>

text \<open>
  Claim C7. When the document type converts to the object \<open>m\<close>, \<open>AsDocument\<close> returns
  the document whose map starts with \<open>$schema\<close>, \<open>$id\<close> and \<open>description\<close> with
  their fixed values, in this order, followed by the items of \<open>m\<close>, whose keys are
  sorted; the three fixed items are in front of the sorted ones and are not sorted with
  them.
\<close>

theorem asDocument_envelope:
  assumes "sortContract rank (sortKeys e)"
    and "calculateProperties e (DocumentType vs t) = Inr m"
  shows "AsDocument e vs t =
           Inr (Document (VMap
             ((''$schema'', VStr ''https://json-schema.org/draft/2020-12/schema'')
              # (''$id'', VStr ''https://example.biz/schema/ytt/data-values.json'')
              # (''description'', VStr ''Schema for data values, generated by ytt'')
              # m)))
         \<and> keysSorted rank m"
proof -
  have "keysSorted rank m"
    by (rule result_sorted [OF assms])
  moreover have "AsDocument e vs t = Inr (Document (VMap (envelope @ m)))"
    unfolding AsDocument_def using assms(2) by simp
  ultimately show ?thesis by (simp add: envelope_def)
qed

theorem asDocument_envelope_witness:
  "sortContract sampleOrder (sortKeys sampleExt)
   \<and> calculateProperties sampleExt
       (DocumentType [] (MapType [] [] [(''name'', [], ScalarType [] [] (VStr '''') StringKind)])) =
       Inr [(''type'', VStr ''object''), (''additionalProperties'', VBool False),
            (''properties'',
               VMap [(''name'', VMap [(''type'', VStr ''string''), (''default'', VStr '''')])])]
   \<and> AsDocument sampleExt []
        (MapType [] [] [(''name'', [], ScalarType [] [] (VStr '''') StringKind)]) =
       Inr (Document (VMap
         ((''$schema'', VStr ''https://json-schema.org/draft/2020-12/schema'')
          # (''$id'', VStr ''https://example.biz/schema/ytt/data-values.json'')
          # (''description'', VStr ''Schema for data values, generated by ytt'')
          # [(''type'', VStr ''object''), (''additionalProperties'', VBool False),
             (''properties'',
                VMap [(''name'', VMap [(''type'', VStr ''string''), (''default'', VStr '''')])])])))
   \<and> keysSorted sampleOrder
        [(''type'', VStr ''object''), (''additionalProperties'', VBool False),
         (''properties'',
            VMap [(''name'', VMap [(''type'', VStr ''string''), (''default'', VStr '''')])])]"
  by (intro conjI sample_contract sample_document
        conjunct1 [OF asDocument_envelope [OF sample_contract sample_document]]
        conjunct2 [OF asDocument_envelope [OF sample_contract sample_document]])

section \<open>Values the switch does not know\<close>

text \<open>
  Claim C8. A value whose type has no case in the switch makes the conversion abort at
  once with the diagnostic that names the value's type, and nothing is returned. The
  abort branch is taken for such values only: whenever a conversion ends with this
  diagnostic, the type it names is that of a visited node outside the recognised set, so
  no call on a recognised node takes the branch itself; and a tree that holds recognised
  nodes only, with every array wrapping an array item, converts.
\<close>

theorem unrecognized_abort:
  "(\<not> recognized n \<longrightarrow> calculateProperties e n = Inl (Unrecognized (typeName n)))
   \<and> (calculateProperties e n = Inl (Unrecognized s) \<longrightarrow>
        (\<exists>c \<in> set (visited n). \<not> recognized c \<and> s = typeName c))
   \<and> ((\<forall>c \<in> set (visited n). recognized c) \<and> arraysWrapItems n \<longrightarrow>
        (\<exists>m. calculateProperties e n = Inr m))"
  using unrecognized_aborts [of n e] unrecognized_origin(1) [of e n s]
    converts_total(1) [of n e]
  by blast

theorem unrecognized_abort_witness:
  "\<not> recognized (Other ''*schema.FooType'' :: scalarKind node)
   \<and> calculateProperties sampleExt (Other ''*schema.FooType'') =
       Inl (Unrecognized ''*schema.FooType'')
   \<and> calculateProperties sampleExt (DocumentType [] (Other ''*schema.FooType'')) =
       Inl (Unrecognized ''*schema.FooType'')
   \<and> (\<exists>c \<in> set (visited (DocumentType [] (Other ''*schema.FooType'') :: scalarKind node)).
         \<not> recognized c \<and> ''*schema.FooType'' = typeName c)
   \<and> list_all recognized (visited (NullType [] [] (ScalarType [] [] (VInt 0) IntKind)))
   \<and> arraysWrapItems (NullType [] [] (ScalarType [] [] (VInt 0) IntKind))
   \<and> (\<exists>m. calculateProperties sampleExt
         (NullType [] [] (ScalarType [] [] (VInt 0) IntKind)) = Inr m)"
proof -
  let ?o = "Other ''*schema.FooType'' :: scalarKind node"
  let ?d = "DocumentType [] ?o"
  let ?n = "NullType [] [] (ScalarType [] [] (VInt 0) IntKind) :: scalarKind node"
  have a: "\<not> recognized ?o" by simp
  have b: "calculateProperties sampleExt ?o = Inl (Unrecognized ''*schema.FooType'')"
    using unrecognized_abort [of ?o sampleExt] a by simp
  have c: "calculateProperties sampleExt ?d = Inl (Unrecognized ''*schema.FooType'')"
    by simp
  have d: "\<exists>c \<in> set (visited ?d). \<not> recognized c \<and> ''*schema.FooType'' = typeName c"
    using unrecognized_abort [of ?d sampleExt "''*schema.FooType''"] c by blast
  have f: "list_all recognized (visited ?n)" by simp
  have g: "arraysWrapItems ?n" by simp
  have h: "\<exists>m. calculateProperties sampleExt ?n = Inr m"
    using unrecognized_abort [of ?n sampleExt] f g by (simp add: list_all_iff)
  show ?thesis by (intro conjI a b c d f g h)
qed

section \<open>Array items\<close>

text \<open>
  Claim C9. The switch has no case for \<open>ArrayItemType\<close>: converting an array item
  directly takes the abort of the unrecognised types, and so does converting a
  document, a map item or a nullable node that wraps one. An array item is consumed
  only by the array clause, which converts the type inside the item: the array's object
  is built from the array's own documentation, validations and default and from the
  object of that inner type, and does not depend on the documentation and validations
  attached to the item.
\<close>

theorem arrayItem_not_converted:
  "calculateProperties e (ArrayItemType d' vs' t) = Inl (Unrecognized ''*schema.ArrayItemType'')
   \<and> calculateProperties e (DocumentType vs (ArrayItemType d' vs' t)) =
       Inl (Unrecognized ''*schema.ArrayItemType'')
   \<and> calculateProperties e (MapItemType k vs (ArrayItemType d' vs' t)) =
       Inl (Unrecognized ''*schema.ArrayItemType'')
   \<and> calculateProperties e (NullType d vs (ArrayItemType d' vs' t)) =
       Inl (Unrecognized ''*schema.ArrayItemType'')
   \<and> calculateProperties e (ArrayType d vs dv (ArrayItemType d' vs' t)) =
       (case calculateProperties e t of
          Inl err \<Rightarrow> Inl err
        | Inr m \<Rightarrow> Inr (sortKeys e (d @ vs @ [(''type'', VStr ''array''), (''default'', dv),
                                             (''items'', VMap m)])))
   \<and> calculateProperties e (ArrayType d vs dv (ArrayItemType d' vs' t)) =
       calculateProperties e (ArrayType d vs dv (ArrayItemType [] [] t))"
  by (simp add: keyDefs split: sum.splits)

theorem arrayItem_not_converted_witness:
  "calculateProperties sampleExt
     (ArrayItemType [(''title'', VStr ''element'')] [(''minimum'', VInt 1)]
        (ScalarType [] [] (VInt 0) IntKind)) =
     Inl (Unrecognized ''*schema.ArrayItemType'')
   \<and> calculateProperties sampleExt
       (ArrayType [] [] (VArr [])
          (ArrayItemType [(''title'', VStr ''element'')] [(''minimum'', VInt 1)]
             (ScalarType [] [] (VInt 0) IntKind))) =
     calculateProperties sampleExt
       (ArrayType [] [] (VArr []) (ArrayItemType [] [] (ScalarType [] [] (VInt 0) IntKind)))
   \<and> calculateProperties sampleExt
       (ArrayType [] [] (VArr []) (ArrayItemType [] [] (ScalarType [] [] (VInt 0) IntKind))) =
     Inr [(''type'', VStr ''array''),
          (''items'', VMap [(''type'', VStr ''integer''), (''default'', VInt 0)]),
          (''default'', VArr [])]"
proof -
  note t = arrayItem_not_converted [of sampleExt "[(''title'', VStr ''element'')]"
      "[(''minimum'', VInt 1)]" "ScalarType [] [] (VInt 0) IntKind" "[]" "''k''" "[]" "VArr []"]
  have a: "calculateProperties sampleExt
       (ArrayType [] [] (VArr []) (ArrayItemType [] [] (ScalarType [] [] (VInt 0) IntKind))) =
     Inr [(''type'', VStr ''array''),
          (''items'', VMap [(''type'', VStr ''integer''), (''default'', VInt 0)]),
          (''default'', VArr [])]"
    by (simp add: sampleDefs keyDefs)
  from t a show ?thesis by blast
qed

section \<open>The type assertion of the array clause\<close>

text \<open>
  Claim C10. The array clause asserts, unchecked, that the array's value type is an
  \<open>ArrayItemType\<close>. For an array that wraps anything else the conversion aborts with
  the failure of the assertion, which is not the diagnostic of the unrecognised types;
  in a tree where every array wraps an array item the conversion never ends with a
  failed assertion.
\<close>

theorem array_assertion:
  "(\<not> isArrayItem c \<longrightarrow>
      calculateProperties e (ArrayType d vs dv c) = Inl (AssertionFailed (typeName c))
      \<and> calculateProperties e (ArrayType d vs dv c) \<noteq> Inl (Unrecognized u))
   \<and> (arraysWrapItems n \<longrightarrow> calculateProperties e n \<noteq> Inl (AssertionFailed s))"
  using assertion_fails [of c e d vs dv] no_assertion_failure(1) [of n e s] by simp

theorem array_assertion_witness:
  "\<not> isArrayItem (ScalarType [] [] (VInt 0) IntKind)
   \<and> calculateProperties sampleExt
       (ArrayType [] [] (VArr []) (ScalarType [] [] (VInt 0) IntKind)) =
     Inl (AssertionFailed ''*schema.ScalarType'')
   \<and> calculateProperties sampleExt
       (ArrayType [] [] (VArr []) (ScalarType [] [] (VInt 0) IntKind)) \<noteq>
     Inl (Unrecognized ''*schema.ScalarType'')
   \<and> arraysWrapItems
       (ArrayType [] [] (VArr []) (ArrayItemType [] [] (ScalarType [] [] (VInt 0) IntKind)))
   \<and> calculateProperties sampleExt
       (ArrayType [] [] (VArr []) (ArrayItemType [] [] (ScalarType [] [] (VInt 0) IntKind))) \<noteq>
     Inl (AssertionFailed ''*schema.ScalarType'')"
proof -
  let ?s = "ScalarType [] [] (VInt 0) IntKind :: scalarKind node"
  let ?a = "ArrayType [] [] (VArr []) (ArrayItemType [] [] ?s)"
  have a: "\<not> isArrayItem ?s" by simp
  have b: "arraysWrapItems ?a" by simp
  note t1 = array_assertion [of ?s sampleExt "[]" "[]" "VArr []" "''*schema.ScalarType''" ?a
      "''*schema.ScalarType''"]
  from t1 a b show ?thesis by simp
qed

end
